theory Spec2Isabelle
  imports Main "HOL-Library.Sublist" "HOL-Library.Word"
begin

section \<open>Strings\<close>

text \<open>
  A JavaScript string is a sequence of 16-bit code units. The text the user types, which
  \<open>trim\<close> inspects unit by unit, and everything made from it or stored beside it (the
  \<open>text\<close> of a message, the JSON \<open>message\<close>, the server's \<open>reply\<close>) is modelled so.
  Strings that the program only compares with literals or passes on (labels, URLs, file
  names, time stamps) are kept as \<^typ>\<open>string\<close>. \<open>str\<close> reads a literal as code units:
  a character of the Latin-1 range is the code unit of the same number.
\<close>

type_synonym js_string = "16 word list"

definition str :: "string \<Rightarrow> js_string" where
  "str s = map of_char s"

text \<open>
  \<open>String.prototype.trim\<close> removes leading and trailing white space and line terminators.
  These are the code units of ECMAScript's \<open>WhiteSpace\<close> (TAB, VT, FF, U+FEFF and the
  Unicode category Zs: SPACE, U+00A0, U+1680, U+2000 to U+200A, U+202F, U+205F, U+3000)
  and \<open>LineTerminator\<close> (LF, CR, U+2028, U+2029); none lies outside the basic plane, so
  each is one code unit. A string is truthy exactly when it is not empty.
\<close>

definition is_ws :: "16 word \<Rightarrow> bool" where
  "is_ws c = (c = 0x0009 \<or> c = 0x000A \<or> c = 0x000B \<or> c = 0x000C \<or> c = 0x000D \<or> c = 0x0020
      \<or> c = 0x00A0 \<or> c = 0x1680
      \<or> c = 0x2000 \<or> c = 0x2001 \<or> c = 0x2002 \<or> c = 0x2003 \<or> c = 0x2004 \<or> c = 0x2005
      \<or> c = 0x2006 \<or> c = 0x2007 \<or> c = 0x2008 \<or> c = 0x2009 \<or> c = 0x200A
      \<or> c = 0x2028 \<or> c = 0x2029 \<or> c = 0x202F \<or> c = 0x205F \<or> c = 0x3000 \<or> c = 0xFEFF)"

definition trim :: "js_string \<Rightarrow> js_string" where
  "trim s = rev (dropWhile is_ws (rev (dropWhile is_ws s)))"

definition whitespace_only :: "js_string \<Rightarrow> bool" where
  "whitespace_only s = list_all is_ws s"

section \<open>Data model\<close>

text \<open>
  A chat message as built in \<open>ChatInterface.handleSendMessage\<close>:
  \<open>{ text, sender, timestamp, isError }\<close>, where \<open>isError\<close> is only present on the
  fallback message (absent is \<open>None\<close>).
\<close>

record message =
  "text" :: js_string
  sender :: string
  timestamp :: string
  isError :: "bool option"

text \<open>The body of a successful \<open>POST /chat\<close>: \<open>{ reply }\<close>.\<close>

record reply_body =
  reply :: js_string

text \<open>
  An entry of the file listing: \<open>{ filename, metadata: { size, file_type } }\<close> with
  \<open>metadata\<close> optional.
\<close>

record file_record =
  filename :: string
  metadata :: "(nat \<times> string) option"

text \<open>The body of \<open>GET /files\<close>: \<open>{ files }\<close>.\<close>

record list_response =
  response_files :: "file_record list"

text \<open>
  The RAG status object. The component starts from \<open>{}\<close> and later stores whatever
  \<open>GET /rag/status\<close> returned, so both fields may be absent.
\<close>

record rag_status =
  rag_initialized :: "bool option"
  file_count :: "int option"

text \<open>The body of \<open>POST /upload\<close>: \<open>{ status, ... }\<close>.\<close>

record upload_result =
  result_status :: string

text \<open>The acknowledgement bodies of delete and reinitialize; their content is never read.\<close>

datatype ack = Ack

text \<open>A file picked in the \<open><input type="file">\<close> element.\<close>

datatype js_file = File string

section \<open>HTTP, as seen through \<open>fetch\<close>\<close>

datatype http_method = GET | POST | DELETE

datatype json_value = JString js_string | JBool bool

datatype body = NoBody | JsonBody "(string \<times> json_value) list" | FormData "(string \<times> js_file) list"

datatype request = Request http_method string "(string \<times> string) list" body

text \<open>
  What the caller of an API operation can get thrown at it: \<open>fetch\<close> rejecting (no
  response at all), the \<open>Error('HTTP error! status: N')\<close> raised by the client itself,
  and \<open>response.json()\<close> rejecting on a body that is not JSON.
\<close>

datatype js_error = FetchFailed | HttpError nat | JsonSyntaxError

text \<open>
  A response carries its status code and what \<open>response.json()\<close> yields (\<open>None\<close>: the body
  does not parse). \<open>response.ok\<close> is true for the status codes 200 to 299.
\<close>

datatype 'a response = Response (status: nat) (json: "'a option")

definition ok :: "'a response \<Rightarrow> bool" where
  "ok response = (200 \<le> status response \<and> status response \<le> 299)"

definition response_json :: "'a response \<Rightarrow> js_error + 'a" where
  "response_json response = (case json response of None \<Rightarrow> Inl JsonSyntaxError | Some v \<Rightarrow> Inr v)"

text \<open>The settled \<open>fetch\<close> promise: rejected (\<open>Inl\<close>) or fulfilled with a response.\<close>

type_synonym 'a fetched = "js_error + 'a response"

section \<open>Observable effects\<close>

text \<open>
  Everything a handler does is appended, in program order, to a trace: state setter
  calls, requests handed to \<open>fetch\<close>, console output, dialogs and timers.
\<close>

datatype callback = LoadRAGStatus

datatype effect =
    Fetch request
  | ConsoleError string js_error
  | Alert string
  | Confirm string
  | SetTimeout callback nat
  | SetMessages "message list"
  | SetIsLoading bool
  | SetInput js_string
  | SetFiles "file_record list"
  | SetUploading bool
  | SetRagStatus rag_status
  | ClearTargetValue

record io =
  trace :: "effect list"

definition emit :: "effect \<Rightarrow> 'a io_scheme \<Rightarrow> 'a io_scheme" where
  "emit e s = s\<lparr>trace := trace s @ [e]\<rparr>"

definition emits :: "effect list \<Rightarrow> 'a io_scheme \<Rightarrow> 'a io_scheme" where
  "emits es s = s\<lparr>trace := trace s @ es\<rparr>"

definition console_error :: "string \<Rightarrow> js_error \<Rightarrow> 'a io_scheme \<Rightarrow> 'a io_scheme" where
  "console_error label error s = emit (ConsoleError label error) s"

definition alert :: "string \<Rightarrow> 'a io_scheme \<Rightarrow> 'a io_scheme" where
  "alert msg s = emit (Alert msg) s"

text \<open>How often a request was handed to \<open>fetch\<close>, and the timers that were armed.\<close>

definition fetches :: "request \<Rightarrow> effect list \<Rightarrow> nat" where
  "fetches r tr = count_list tr (Fetch r)"

fun timers :: "effect list \<Rightarrow> (callback \<times> nat) list" where
  "timers [] = []"
| "timers (SetTimeout cb ms # tr) = (cb, ms) # timers tr"
| "timers (_ # tr) = timers tr"

section \<open>The API client (\<open>services/api.js\<close>)\<close>

definition API_BASE_URL :: string where
  "API_BASE_URL = ''http://localhost:8000''"

subsection \<open>\<open>chatAPI\<close>\<close>

text \<open>
  \<open>sendMessage(message, useRAG = true)\<close>: the request it hands to \<open>fetch\<close>, and what it
  makes of the settled \<open>fetch\<close>. Its \<open>catch\<close> logs and rethrows, so the operation returns
  its result together with its console output.
\<close>

definition chatAPI_sendMessage_request :: "js_string \<Rightarrow> bool option \<Rightarrow> request" where
  "chatAPI_sendMessage_request message useRAG =
     Request POST (API_BASE_URL @ ''/chat'') [(''Content-Type'', ''application/json'')]
       (JsonBody [(''message'', JString message),
                  (''use_rag'', JBool (case useRAG of None \<Rightarrow> True | Some b \<Rightarrow> b))])"

definition chatAPI_sendMessage :: "reply_body fetched \<Rightarrow> (js_error + reply_body) \<times> effect list" where
  "chatAPI_sendMessage fetched =
     (case (case fetched of
              Inl e \<Rightarrow> Inl e
            | Inr response \<Rightarrow>
                if \<not> ok response then Inl (HttpError (status response))
                else response_json response) of
        Inr v \<Rightarrow> (Inr v, [])
      | Inl error \<Rightarrow> (Inl error, [ConsoleError ''API Error:'' error]))"

subsection \<open>\<open>fileAPI\<close>\<close>

definition fileAPI_uploadFile_request :: "(string \<times> js_file) list \<Rightarrow> request" where
  "fileAPI_uploadFile_request formData =
     Request POST (API_BASE_URL @ ''/upload'') [] (FormData formData)"

definition fileAPI_uploadFile :: "upload_result fetched \<Rightarrow> js_error + upload_result" where
  "fileAPI_uploadFile fetched =
     (case fetched of
        Inl e \<Rightarrow> Inl e
      | Inr response \<Rightarrow>
          if \<not> ok response then Inl (HttpError (status response))
          else response_json response)"

definition fileAPI_deleteFile_request :: "string \<Rightarrow> request" where
  "fileAPI_deleteFile_request fname =
     Request DELETE (API_BASE_URL @ ''/files/'' @ fname) [] NoBody"

definition fileAPI_deleteFile :: "ack fetched \<Rightarrow> js_error + ack" where
  "fileAPI_deleteFile fetched =
     (case fetched of
        Inl e \<Rightarrow> Inl e
      | Inr response \<Rightarrow>
          if \<not> ok response then Inl (HttpError (status response))
          else response_json response)"

definition fileAPI_listFiles_request :: request where
  "fileAPI_listFiles_request = Request GET (API_BASE_URL @ ''/files'') [] NoBody"

definition fileAPI_listFiles :: "list_response fetched \<Rightarrow> js_error + list_response" where
  "fileAPI_listFiles fetched =
     (case fetched of
        Inl e \<Rightarrow> Inl e
      | Inr response \<Rightarrow>
          if \<not> ok response then Inl (HttpError (status response))
          else response_json response)"

subsection \<open>\<open>ragAPI\<close>\<close>

text \<open>Neither operation looks at \<open>response.ok\<close>: the body is parsed whatever the status.\<close>

definition ragAPI_getStatus_request :: request where
  "ragAPI_getStatus_request = Request GET (API_BASE_URL @ ''/rag/status'') [] NoBody"

definition ragAPI_getStatus :: "rag_status fetched \<Rightarrow> js_error + rag_status" where
  "ragAPI_getStatus fetched =
     (case fetched of
        Inl e \<Rightarrow> Inl e
      | Inr response \<Rightarrow> response_json response)"

definition ragAPI_reinitialize_request :: request where
  "ragAPI_reinitialize_request = Request POST (API_BASE_URL @ ''/rag/reinitialize'') [] NoBody"

definition ragAPI_reinitialize :: "ack fetched \<Rightarrow> js_error + ack" where
  "ragAPI_reinitialize fetched =
     (case fetched of
        Inl e \<Rightarrow> Inl e
      | Inr response \<Rightarrow> response_json response)"

section \<open>The chat session (\<open>ChatInterface\<close> with its \<open>InputBox\<close>)\<close>

text \<open>
  The state of the two components: \<open>messages\<close> and \<open>isLoading\<close> of \<open>ChatInterface\<close>,
  \<open>input\<close> of \<open>InputBox\<close>. An invocation of \<open>handleSendMessage\<close> that waits at its
  \<open>await\<close> keeps its local \<open>updatedMessages\<close>; \<open>suspended\<close> lists these invocations.
  Handlers read the state of the latest render: React re-renders between two events.
\<close>

record chat = io +
  messages :: "message list"
  isLoading :: bool
  input :: js_string
  suspended :: "message list list"

definition initial_chat :: chat where
  "initial_chat = \<lparr>trace = [], messages = [], isLoading = False, input = [], suspended = []\<rparr>"

definition setMessages :: "message list \<Rightarrow> chat \<Rightarrow> chat" where
  "setMessages v s = emit (SetMessages v) (s\<lparr>messages := v\<rparr>)"

definition setIsLoading :: "bool \<Rightarrow> chat \<Rightarrow> chat" where
  "setIsLoading v s = emit (SetIsLoading v) (s\<lparr>isLoading := v\<rparr>)"

definition setInput :: "js_string \<Rightarrow> chat \<Rightarrow> chat" where
  "setInput v s = emit (SetInput v) (s\<lparr>input := v\<rparr>)"

text \<open>
  \<open>handleSendMessage\<close> up to its \<open>await\<close>: the user message is appended, the loading flag
  is raised, the request goes out (\<open>useRAG\<close> is left to its default), and the invocation
  is suspended holding \<open>updatedMessages\<close>. \<open>now\<close> is what \<open>new Date().toISOString()\<close> reads.
\<close>

definition handleSendMessage :: "js_string \<Rightarrow> string \<Rightarrow> chat \<Rightarrow> chat" where
  "handleSendMessage message now s =
     (let userMessage = \<lparr>text = message, sender = ''user'', timestamp = now, isError = None\<rparr>;
          updatedMessages = messages s @ [userMessage];
          s = setMessages updatedMessages s;
          s = setIsLoading True s;
          s = emit (Fetch (chatAPI_sendMessage_request message None)) s
      in s\<lparr>suspended := suspended s @ [updatedMessages]\<rparr>)"

text \<open>
  The rest of \<open>handleSendMessage\<close>, run when the \<open>fetch\<close> of the invocation holding
  \<open>updatedMessages\<close> has settled: \<open>try\<close>, \<open>catch\<close>, \<open>finally\<close>. The first component of the
  result is the error the returned promise is rejected with, if any.
\<close>

definition handleSendMessage_resume ::
    "message list \<Rightarrow> reply_body fetched \<Rightarrow> string \<Rightarrow> chat \<Rightarrow> js_error option \<times> chat" where
  "handleSendMessage_resume updatedMessages fetched now s =
     (let (result, logged) = chatAPI_sendMessage fetched;
          s = emits logged s;
          s = (case result of
                 Inr response \<Rightarrow>
                   let botMessage = \<lparr>text = reply response, sender = ''bot'', timestamp = now,
                                     isError = None\<rparr>
                   in setMessages (updatedMessages @ [botMessage]) s
               | Inl error \<Rightarrow>
                   let s = console_error ''Error sending message:'' error s;
                       errorMessage = \<lparr>text = str ''Sorry, I encountered an error. Please try again.'',
                                       sender = ''bot'', timestamp = now, isError = Some True\<rparr>
                   in setMessages (updatedMessages @ [errorMessage]) s)
      in (None, setIsLoading False s))"

text \<open>\<open>InputBox.handleSubmit\<close>; \<open>e.preventDefault()\<close> only stops the browser's own form submission.\<close>

definition handleSubmit :: "string \<Rightarrow> chat \<Rightarrow> chat" where
  "handleSubmit now s =
     (if trim (input s) \<noteq> [] \<and> \<not> isLoading s
      then setInput [] (handleSendMessage (trim (input s)) now s)
      else s)"

text \<open>
  The events of a session: typing (\<open>onChange\<close>), submitting (the form's \<open>onSubmit\<close>, or
  Enter without Shift through \<open>handleKeyPress\<close>), and the settling of the \<open>fetch\<close> of the
  \<open>k\<close>-th suspended invocation, which then runs to its end.
\<close>

datatype chat_event =
    Change js_string
  | Submit string
  | Settle nat "reply_body fetched" string

fun chat_step :: "chat_event \<Rightarrow> chat \<Rightarrow> chat" where
  "chat_step (Change v) s = setInput v s"
| "chat_step (Submit now) s = handleSubmit now s"
| "chat_step (Settle k fetched now) s =
     (if k < length (suspended s)
      then snd (handleSendMessage_resume (suspended s ! k) fetched now
                  (s\<lparr>suspended := take k (suspended s) @ drop (Suc k) (suspended s)\<rparr>))
      else s)"

fun run :: "chat_event list \<Rightarrow> chat \<Rightarrow> chat" where
  "run [] s = s"
| "run (e # es) s = run es (chat_step e s)"

subsection \<open>The invariant of the session\<close>

text \<open>
  \<open>handleSendMessage\<close> is only ever called by \<open>InputBox.handleSubmit\<close>, which refuses to
  call it while \<open>isLoading\<close> is true. So at most one invocation is suspended at a time, it
  is suspended exactly while \<open>isLoading\<close> is true, and the \<open>updatedMessages\<close> it holds
  is the transcript on display.
\<close>

definition chat_inv :: "chat \<Rightarrow> bool" where
  "chat_inv s = (suspended s = (if isLoading s then [messages s] else []))"

section \<open>The file repository view (\<open>FileManagement\<close>)\<close>

text \<open>
  The component's state: \<open>files\<close>, \<open>uploading\<close> and \<open>ragStatus\<close>, and with them the
  selection held by the file input element (\<open>event.target.files\<close>).
\<close>

record fm = io +
  files :: "file_record list"
  uploading :: bool
  ragStatus :: rag_status
  target_files :: "js_file list"

definition initial_fm :: fm where
  "initial_fm = \<lparr>trace = [], files = [], uploading = False,
                  ragStatus = \<lparr>rag_initialized = None, file_count = None\<rparr>, target_files = []\<rparr>"

text \<open>
  What the status card renders: \<open>ragStatus.rag_initialized ? active : inactive\<close> and
  \<open>ragStatus.file_count || 0\<close>.
\<close>

definition rag_active :: "rag_status \<Rightarrow> bool" where
  "rag_active st = (case rag_initialized st of None \<Rightarrow> False | Some b \<Rightarrow> b)"

definition shown_file_count :: "rag_status \<Rightarrow> int" where
  "shown_file_count st = (case file_count st of None \<Rightarrow> 0 | Some n \<Rightarrow> if n = 0 then 0 else n)"

definition setFiles :: "file_record list \<Rightarrow> fm \<Rightarrow> fm" where
  "setFiles v s = emit (SetFiles v) (s\<lparr>files := v\<rparr>)"

definition setUploading :: "bool \<Rightarrow> fm \<Rightarrow> fm" where
  "setUploading v s = emit (SetUploading v) (s\<lparr>uploading := v\<rparr>)"

definition setRagStatus :: "rag_status \<Rightarrow> fm \<Rightarrow> fm" where
  "setRagStatus v s = emit (SetRagStatus v) (s\<lparr>ragStatus := v\<rparr>)"

text \<open>\<open>event.target.value = ''\<close> empties the selection of the file input.\<close>

definition clear_target_value :: "fm \<Rightarrow> fm" where
  "clear_target_value s = emit ClearTargetValue (s\<lparr>target_files := []\<rparr>)"

subsection \<open>\<open>loadFiles\<close> and \<open>loadRAGStatus\<close>\<close>

text \<open>
  Each of the two is given in two halves, split at its \<open>await\<close>: the call that hands the
  request to \<open>fetch\<close>, and the continuation run on the settled \<open>fetch\<close>. The \<open>try\<close> spans
  the whole body and the \<open>catch\<close> only logs, so the returned promise always resolves.
  \<open>loadFiles\<close> and \<open>loadRAGStatus\<close> themselves are the two halves in a row, as a caller
  that awaits them sees them.
\<close>

definition loadFiles_call :: "fm \<Rightarrow> fm" where
  "loadFiles_call s = emit (Fetch fileAPI_listFiles_request) s"

definition loadFiles_settle :: "list_response fetched \<Rightarrow> fm \<Rightarrow> fm" where
  "loadFiles_settle fetched s =
     (case fileAPI_listFiles fetched of
        Inr response \<Rightarrow> setFiles (response_files response) s
      | Inl error \<Rightarrow> console_error ''Error loading files:'' error s)"

definition loadFiles :: "list_response fetched \<Rightarrow> fm \<Rightarrow> fm" where
  "loadFiles fetched s = loadFiles_settle fetched (loadFiles_call s)"

definition loadRAGStatus_call :: "fm \<Rightarrow> fm" where
  "loadRAGStatus_call s = emit (Fetch ragAPI_getStatus_request) s"

definition loadRAGStatus_settle :: "rag_status fetched \<Rightarrow> fm \<Rightarrow> fm" where
  "loadRAGStatus_settle fetched s =
     (case ragAPI_getStatus fetched of
        Inr stat \<Rightarrow> setRagStatus stat s
      | Inl error \<Rightarrow> console_error ''Error loading RAG status:'' error s)"

definition loadRAGStatus :: "rag_status fetched \<Rightarrow> fm \<Rightarrow> fm" where
  "loadRAGStatus fetched s = loadRAGStatus_settle fetched (loadRAGStatus_call s)"

text \<open>
  The mount effect calls both without awaiting either: each runs up to its \<open>await\<close>, so
  both requests are out before any response is looked at.
\<close>

definition mount :: "fm \<Rightarrow> fm" where
  "mount s = loadRAGStatus_call (loadFiles_call s)"

subsection \<open>The handlers\<close>

text \<open>
  A handler is given as run from its start to its end, the settled \<open>fetch\<close> of each request
  it may issue being an argument: of the upload, of the listing and of the status.
\<close>

definition handleFileUpload ::
    "upload_result fetched \<Rightarrow> list_response fetched \<Rightarrow> rag_status fetched \<Rightarrow> fm \<Rightarrow> fm" where
  "handleFileUpload uploaded listed stat s =
     (case target_files s of
        [] \<Rightarrow> s
      | file # _ \<Rightarrow>
          let formData = [(''file'', file)];
              s = setUploading True s;
              s = emit (Fetch (fileAPI_uploadFile_request formData)) s;
              s = (case fileAPI_uploadFile uploaded of
                     Inr result \<Rightarrow>
                       if result_status result = ''duplicate''
                       then alert ''El archivo ya existe en el sistema'' s
                       else
                         let s = loadFiles listed s;
                             s = loadRAGStatus stat s
                         in alert (''Archivo subido exitosamente. El sistema RAG se est''
                                   @ [CHR 0xC3, CHR 0xA1] @ '' actualizando.'') s
                   | Inl error \<Rightarrow>
                       let s = console_error ''Error uploading file:'' error s
                       in alert ''Error al subir el archivo'' s);
              s = setUploading False s
          in clear_target_value s)"

text \<open>\<open>confirmed\<close> is the answer \<open>window.confirm\<close> returns.\<close>

definition handleDeleteFile ::
    "string \<Rightarrow> bool \<Rightarrow> ack fetched \<Rightarrow> list_response fetched \<Rightarrow> rag_status fetched \<Rightarrow> fm \<Rightarrow> fm" where
  "handleDeleteFile fname confirmed deleted listed stat s =
     (let s = emit (Confirm ([CHR 0xC2, CHR 0xBF] @ ''Eliminar el archivo '' @ fname @ ''?'')) s
      in if confirmed
         then
           let s = emit (Fetch (fileAPI_deleteFile_request fname)) s
           in (case fileAPI_deleteFile deleted of
                 Inr _ \<Rightarrow>
                   let s = loadFiles listed s;
                       s = loadRAGStatus stat s
                   in alert ''Archivo eliminado exitosamente'' s
               | Inl error \<Rightarrow>
                   let s = console_error ''Error deleting file:'' error s
                   in alert ''Error al eliminar el archivo'' s)
         else s)"

definition handleReinitializeRAG :: "ack fetched \<Rightarrow> fm \<Rightarrow> fm" where
  "handleReinitializeRAG reinitialized s =
     (let s = emit (Fetch ragAPI_reinitialize_request) s
      in (case ragAPI_reinitialize reinitialized of
            Inr _ \<Rightarrow>
              let s = alert (''Sistema RAG se est'' @ [CHR 0xC3, CHR 0xA1] @ '' reinicializando...'') s
              in emit (SetTimeout LoadRAGStatus 3000) s
          | Inl error \<Rightarrow> console_error ''Error reinitializing RAG:'' error s))"

text \<open>What a timer runs when it fires.\<close>

fun run_callback :: "callback \<Rightarrow> rag_status fetched \<Rightarrow> fm \<Rightarrow> fm" where
  "run_callback LoadRAGStatus stat s = loadRAGStatus stat s"

section \<open>Properties of the chat session\<close>

lemma trim_empty_iff: "trim s = [] \<longleftrightarrow> whitespace_only s"
proof -
  have "(\<forall>c \<in> set (dropWhile is_ws s). is_ws c) \<longleftrightarrow> (\<forall>c \<in> set s. is_ws c)"
  proof
    assume rest: "\<forall>c \<in> set (dropWhile is_ws s). is_ws c"
    have "set s = set (takeWhile is_ws s) \<union> set (dropWhile is_ws s)"
      by (metis set_append takeWhile_dropWhile_id)
    with rest show "\<forall>c \<in> set s. is_ws c"
      by (auto dest: set_takeWhileD)
  next
    assume "\<forall>c \<in> set s. is_ws c"
    then show "\<forall>c \<in> set (dropWhile is_ws s). is_ws c"
      by (auto dest: set_dropWhileD)
  qed
  then show ?thesis
    by (simp add: trim_def whitespace_only_def list_all_iff)
qed

text \<open>
  C1. A submission made while \<open>isLoading\<close> is true (the session awaits a reply), or with
  an input that is empty or consists only of code units that \<open>trim\<close> strips (any of
  JavaScript's white space and line terminators), changes nothing: the state after
  \<open>handleSubmit\<close> is the state before it, so the transcript has no new message and the
  trace has no new request (nor any other effect).
\<close>

theorem submit_rejected:
  "isLoading s \<or> whitespace_only (input s) \<Longrightarrow>
     handleSubmit now s = s \<and> chat_step (Submit now) s = s"
  by (auto simp: handleSubmit_def trim_empty_iff)

theorem submit_rejected_witness:
  "handleSubmit ''12:00'' (initial_chat\<lparr>input := str ''Hello'', isLoading := True\<rparr>)
     = initial_chat\<lparr>input := str ''Hello'', isLoading := True\<rparr>
   \<and> handleSubmit ''12:00'' (initial_chat\<lparr>input := [0x0020, 0x0009, 0x00A0, 0x3000, 0xFEFF]\<rparr>)
     = initial_chat\<lparr>input := [0x0020, 0x0009, 0x00A0, 0x3000, 0xFEFF]\<rparr>
   \<and> handleSubmit ''12:00'' initial_chat = initial_chat"
  using submit_rejected [of "initial_chat\<lparr>input := str ''Hello'', isLoading := True\<rparr>" "''12:00''"]
    submit_rejected [of "initial_chat\<lparr>input := [0x0020, 0x0009, 0x00A0, 0x3000, 0xFEFF]\<rparr>" "''12:00''"]
    submit_rejected [of initial_chat "''12:00''"]
  by (simp add: whitespace_only_def is_ws_def initial_chat_def)

lemma handleSendMessage_fields:
  "messages (handleSendMessage m now s) = messages s @ [\<lparr>text = m, sender = ''user'', timestamp = now, isError = None\<rparr>]"
  "isLoading (handleSendMessage m now s) = True"
  "input (handleSendMessage m now s) = input s"
  "suspended (handleSendMessage m now s) = suspended s @ [messages s @ [\<lparr>text = m, sender = ''user'', timestamp = now, isError = None\<rparr>]]"
  "trace (handleSendMessage m now s) = trace s @
     [SetMessages (messages s @ [\<lparr>text = m, sender = ''user'', timestamp = now, isError = None\<rparr>]),
      SetIsLoading True, Fetch (chatAPI_sendMessage_request m None)]"
  by (simp_all add: handleSendMessage_def Let_def setMessages_def setIsLoading_def emit_def)

lemma handleSubmit_accepted:
  assumes "trim (input s) \<noteq> []" "\<not> isLoading s"
  shows "handleSubmit now s = setInput [] (handleSendMessage (trim (input s)) now s)"
  using assms by (simp add: handleSubmit_def)

lemma setInput_fields:
  "messages (setInput v s) = messages s" "isLoading (setInput v s) = isLoading s"
  "input (setInput v s) = v" "suspended (setInput v s) = suspended s"
  "trace (setInput v s) = trace s @ [SetInput v]"
  by (simp_all add: setInput_def emit_def)

lemma resume_success:
  assumes "fst (chatAPI_sendMessage fetched) = Inr response"
  shows "handleSendMessage_resume um fetched now s =
     (None, s\<lparr>trace := trace s @ [SetMessages (um @ [\<lparr>text = reply response, sender = ''bot'', timestamp = now, isError = None\<rparr>]), SetIsLoading False],
              messages := um @ [\<lparr>text = reply response, sender = ''bot'', timestamp = now, isError = None\<rparr>],
              isLoading := False\<rparr>)"
proof -
  from assms have "chatAPI_sendMessage fetched = (Inr response, [])"
    by (auto simp: chatAPI_sendMessage_def split: sum.splits if_splits)
  then show ?thesis
    by (simp add: handleSendMessage_resume_def Let_def emits_def setMessages_def setIsLoading_def emit_def)
qed

lemma resume_failure:
  assumes "fst (chatAPI_sendMessage fetched) = Inl error"
  shows "handleSendMessage_resume um fetched now s =
     (None, s\<lparr>trace := trace s @ [ConsoleError ''API Error:'' error, ConsoleError ''Error sending message:'' error,
                   SetMessages (um @ [\<lparr>text = str ''Sorry, I encountered an error. Please try again.'', sender = ''bot'', timestamp = now, isError = Some True\<rparr>]), SetIsLoading False],
              messages := um @ [\<lparr>text = str ''Sorry, I encountered an error. Please try again.'', sender = ''bot'', timestamp = now, isError = Some True\<rparr>],
              isLoading := False\<rparr>)"
proof -
  from assms have "chatAPI_sendMessage fetched = (Inl error, [ConsoleError ''API Error:'' error])"
    by (auto simp: chatAPI_sendMessage_def split: sum.splits if_splits)
  then show ?thesis
    by (simp add: handleSendMessage_resume_def Let_def emits_def setMessages_def setIsLoading_def emit_def console_error_def)
qed

lemma settle_last:
  "chat_step (Settle (length (suspended s)) fetched t2) (setInput v (handleSendMessage m t1 s)) =
   snd (handleSendMessage_resume (messages s @ [\<lparr>text = m, sender = ''user'', timestamp = t1, isError = None\<rparr>]) fetched t2
     ((setInput v (handleSendMessage m t1 s))\<lparr>suspended := suspended s\<rparr>))"
  by (simp add: setInput_fields handleSendMessage_fields)

text \<open>
  C2. An accepted submission whose chat call succeeds. The \<open>Submit\<close> step appends the user
  message and raises \<open>isLoading\<close> before it hands the request to \<open>fetch\<close> (the order of
  the trace), and the transcript then holds the user message only. The bot message with
  the server's reply text is appended by the \<open>Settle\<close> step of that call, which also
  lowers \<open>isLoading\<close>: the transcript has grown by exactly two messages and the session
  is idle again. While the call is in flight, typing leaves the transcript alone and a
  further submission is refused.
\<close>

theorem chat_turn_success:
  assumes "trim (input s) \<noteq> []" and "\<not> isLoading s"
    and "fst (chatAPI_sendMessage fetched) = Inr response"
    and "userMessage = \<lparr>text = trim (input s), sender = ''user'', timestamp = t1, isError = None\<rparr>"
    and "botMessage = \<lparr>text = reply response, sender = ''bot'', timestamp = t2, isError = None\<rparr>"
    and "s1 = chat_step (Submit t1) s"
    and "s2 = chat_step (Settle (length (suspended s)) fetched t2) s1"
  shows "trace s1 = trace s @ [SetMessages (messages s @ [userMessage]), SetIsLoading True,
                      Fetch (chatAPI_sendMessage_request (trim (input s)) None), SetInput []]
       \<and> messages s1 = messages s @ [userMessage] \<and> isLoading s1
       \<and> trace s2 = trace s1 @ [SetMessages (messages s @ [userMessage, botMessage]), SetIsLoading False]
       \<and> messages s2 = messages s @ [userMessage, botMessage]
       \<and> length (messages s2) = length (messages s) + 2
       \<and> \<not> isLoading s2 \<and> suspended s2 = suspended s
       \<and> messages (chat_step (Change v) s1) = messages s1 \<and> chat_step (Submit t) s1 = s1"
proof -
  have s1: "s1 = setInput [] (handleSendMessage (trim (input s)) t1 s)"
    using assms by (simp add: handleSubmit_accepted)
  have s2: "s2 = snd (handleSendMessage_resume (messages s @ [userMessage]) fetched t2 (s1\<lparr>suspended := suspended s\<rparr>))"
    unfolding assms(7) s1 assms(4) by (rule settle_last)
  have waiting: "messages (chat_step (Change v) s1) = messages s1 \<and> chat_step (Submit t) s1 = s1"
    by (simp add: s1 setInput_fields handleSendMessage_fields handleSubmit_def)
  have turn: "trace s1 = trace s @ [SetMessages (messages s @ [userMessage]), SetIsLoading True,
                      Fetch (chatAPI_sendMessage_request (trim (input s)) None), SetInput []]
       \<and> messages s1 = messages s @ [userMessage] \<and> isLoading s1
       \<and> trace s2 = trace s1 @ [SetMessages (messages s @ [userMessage, botMessage]), SetIsLoading False]
       \<and> messages s2 = messages s @ [userMessage, botMessage]
       \<and> length (messages s2) = length (messages s) + 2
       \<and> \<not> isLoading s2 \<and> suspended s2 = suspended s"
    unfolding s2 resume_success [OF assms(3)]
    by (simp add: s1 setInput_fields handleSendMessage_fields assms(4,5))
  from turn waiting show ?thesis by simp
qed


theorem chat_turn_success_witness:
  "messages (chat_step (Settle 0 (Inr (Response 200 (Some \<lparr>reply = str ''Hi there''\<rparr>))) ''12:01'')
      (chat_step (Submit ''12:00'') (initial_chat\<lparr>input := 0x00A0 # str '' Hello ''\<rparr>)))
     = [\<lparr>text = str ''Hello'', sender = ''user'', timestamp = ''12:00'', isError = None\<rparr>,
        \<lparr>text = str ''Hi there'', sender = ''bot'', timestamp = ''12:01'', isError = None\<rparr>]
   \<and> isLoading (chat_step (Submit ''12:00'') (initial_chat\<lparr>input := 0x00A0 # str '' Hello ''\<rparr>))
   \<and> \<not> isLoading (chat_step (Settle 0 (Inr (Response 200 (Some \<lparr>reply = str ''Hi there''\<rparr>))) ''12:01'')
      (chat_step (Submit ''12:00'') (initial_chat\<lparr>input := 0x00A0 # str '' Hello ''\<rparr>)))"
  using chat_turn_success [where s = "initial_chat\<lparr>input := 0x00A0 # str '' Hello ''\<rparr>"
      and fetched = "Inr (Response 200 (Some \<lparr>reply = str ''Hi there''\<rparr>))"
      and response = "\<lparr>reply = str ''Hi there''\<rparr>" and ?t1.0 = "''12:00''" and ?t2.0 = "''12:01''",
      OF _ _ _ refl refl refl refl]
  by (simp add: initial_chat_def trim_def is_ws_def str_def chatAPI_sendMessage_def ok_def response_json_def)

text \<open>
  C3. An accepted submission whose chat call fails (\<open>fetch\<close> rejects, the status is not
  2xx, or the body is not JSON). The transcript grows by exactly two messages, the second
  being the bot message with the fixed fallback text and \<open>isError = true\<close>; the error is
  logged, \<open>isLoading\<close> is lowered, and the promise of \<open>handleSendMessage\<close> is not
  rejected: nothing is raised past the component.
\<close>

theorem chat_turn_failure:
  assumes "trim (input s) \<noteq> []" and "\<not> isLoading s"
    and "fst (chatAPI_sendMessage fetched) = Inl error"
    and "userMessage = \<lparr>text = trim (input s), sender = ''user'', timestamp = t1, isError = None\<rparr>"
    and "errorMessage = \<lparr>text = str ''Sorry, I encountered an error. Please try again.'',
                          sender = ''bot'', timestamp = t2, isError = Some True\<rparr>"
    and "s1 = chat_step (Submit t1) s"
    and "s2 = chat_step (Settle (length (suspended s)) fetched t2) s1"
  shows "messages s1 = messages s @ [userMessage] \<and> isLoading s1
       \<and> messages s2 = messages s @ [userMessage, errorMessage]
       \<and> length (messages s2) = length (messages s) + 2
       \<and> trace s2 = trace s1 @ [ConsoleError ''API Error:'' error,
                                  ConsoleError ''Error sending message:'' error,
                                  SetMessages (messages s @ [userMessage, errorMessage]),
                                  SetIsLoading False]
       \<and> \<not> isLoading s2 \<and> suspended s2 = suspended s
       \<and> fst (handleSendMessage_resume (messages s @ [userMessage]) fetched t2
                 (s1\<lparr>suspended := suspended s\<rparr>)) = None"
proof -
  have s1: "s1 = setInput [] (handleSendMessage (trim (input s)) t1 s)"
    using assms by (simp add: handleSubmit_accepted)
  have s2: "s2 = snd (handleSendMessage_resume (messages s @ [userMessage]) fetched t2 (s1\<lparr>suspended := suspended s\<rparr>))"
    unfolding assms(7) s1 assms(4) by (rule settle_last)
  show ?thesis
    unfolding s2 resume_failure [OF assms(3)]
    by (simp add: s1 setInput_fields handleSendMessage_fields assms(4,5))
qed

theorem chat_turn_failure_witness:
  "messages (chat_step (Settle 0 (Inr (Response 500 None)) ''12:01'')
      (chat_step (Submit ''12:00'') (initial_chat\<lparr>input := str ''Hello''\<rparr>)))
     = [\<lparr>text = str ''Hello'', sender = ''user'', timestamp = ''12:00'', isError = None\<rparr>,
        \<lparr>text = str ''Sorry, I encountered an error. Please try again.'', sender = ''bot'',
           timestamp = ''12:01'', isError = Some True\<rparr>]
   \<and> \<not> isLoading (chat_step (Settle 0 (Inr (Response 500 None)) ''12:01'')
      (chat_step (Submit ''12:00'') (initial_chat\<lparr>input := str ''Hello''\<rparr>)))"
  using chat_turn_failure [where s = "initial_chat\<lparr>input := str ''Hello''\<rparr>"
      and fetched = "Inr (Response 500 None)"
      and error = "HttpError 500" and ?t1.0 = "''12:00''" and ?t2.0 = "''12:01''",
      OF _ _ _ refl refl refl refl]
  by (simp add: initial_chat_def trim_def is_ws_def str_def chatAPI_sendMessage_def ok_def response_json_def)


lemma resume_messages:
  "messages (snd (handleSendMessage_resume um fetched now s)) =
     um @ [case fst (chatAPI_sendMessage fetched) of
             Inr response \<Rightarrow> \<lparr>text = reply response, sender = ''bot'', timestamp = now, isError = None\<rparr>
           | Inl error \<Rightarrow> \<lparr>text = str ''Sorry, I encountered an error. Please try again.'', sender = ''bot'', timestamp = now, isError = Some True\<rparr>]"
  "isLoading (snd (handleSendMessage_resume um fetched now s)) = False"
  "suspended (snd (handleSendMessage_resume um fetched now s)) = suspended s"
  by (cases "fst (chatAPI_sendMessage fetched)"; simp add: resume_success resume_failure)+

lemma chat_step_inv: "chat_inv s \<Longrightarrow> chat_inv (chat_step e s) \<and> prefix (messages s) (messages (chat_step e s))"
proof (cases e)
  case (Change v)
  assume "chat_inv s"
  then show ?thesis using Change by (simp add: chat_inv_def setInput_fields)
next
  case (Submit now)
  assume inv: "chat_inv s"
  show ?thesis
  proof (cases "trim (input s) \<noteq> [] \<and> \<not> isLoading s")
    case True
    then show ?thesis using inv Submit
      by (simp add: handleSubmit_accepted chat_inv_def setInput_fields handleSendMessage_fields)
  next
    case False
    then show ?thesis using inv Submit by (auto simp: handleSubmit_def)
  qed
next
  case (Settle k fetched now)
  assume inv: "chat_inv s"
  show ?thesis
  proof (cases "k < length (suspended s)")
    case True
    with inv have "isLoading s" "k = 0" "suspended s = [messages s]"
      by (auto simp: chat_inv_def split: if_splits)
    then show ?thesis using Settle
      by (simp add: resume_messages chat_inv_def)
  next
    case False
    then show ?thesis using inv Settle by simp
  qed
qed

lemma run_inv: "chat_inv s \<Longrightarrow> chat_inv (run es s) \<and> prefix (messages s) (messages (run es s))"
proof (induction es arbitrary: s)
  case Nil
  then show ?case by simp
next
  case (Cons e es)
  from Cons.prems have step: "chat_inv (chat_step e s)" "prefix (messages s) (messages (chat_step e s))"
    using chat_step_inv by blast+
  from Cons.IH [OF step(1)] step(2) show ?case
    by (auto intro: prefix_order.trans)
qed

lemma run_append: "run (es @ es') s = run es' (run es s)"
  by (induction es arbitrary: s) simp_all

lemma initial_chat_inv: "chat_inv initial_chat"
  by (simp add: chat_inv_def initial_chat_def)

text \<open>
  C8. The transcript is append-only over a whole session: whatever events \<open>es\<close> have
  happened since the component was mounted and whatever events \<open>es'\<close> follow, the transcript
  after \<open>es\<close> is an initial segment of the transcript after \<open>es @ es'\<close>. Every transition
  thus leaves the messages as they are or extends them at the end; no message is changed,
  moved or removed, and the user message appended on submission stays, however its call
  settles.
\<close>

theorem transcript_append_only:
  "prefix (messages (run es initial_chat)) (messages (run (es @ es') initial_chat))
   \<and> (trim (input (run es initial_chat)) \<noteq> [] \<and> \<not> isLoading (run es initial_chat) \<longrightarrow>
        prefix (messages (run es initial_chat)
                  @ [\<lparr>text = trim (input (run es initial_chat)), sender = ''user'',
                       timestamp = now, isError = None\<rparr>])
               (messages (run (es @ Submit now # es') initial_chat)))"
proof -
  let ?s = "run es initial_chat"
  have inv: "chat_inv ?s"
    using run_inv [OF initial_chat_inv] by blast
  have grows: "prefix (messages ?s) (messages (run (es @ es') initial_chat))"
    using run_inv [OF inv, of es'] by (simp add: run_append)
  have kept: "prefix (messages ?s @ [\<lparr>text = trim (input ?s), sender = ''user'',
                                      timestamp = now, isError = None\<rparr>])
                     (messages (run (es @ Submit now # es') initial_chat))"
    if accepted: "trim (input ?s) \<noteq> [] \<and> \<not> isLoading ?s"
  proof -
    have appended: "messages (handleSubmit now ?s) =
        messages ?s @ [\<lparr>text = trim (input ?s), sender = ''user'', timestamp = now, isError = None\<rparr>]"
      using accepted by (simp add: handleSubmit_accepted setInput_fields handleSendMessage_fields)
    have "chat_inv (chat_step (Submit now) ?s)"
      using chat_step_inv [OF inv] by blast
    from run_inv [OF this, of es'] show ?thesis
      by (simp add: run_append appended)
  qed
  from grows kept show ?thesis by blast
qed

theorem transcript_append_only_witness:
  "prefix [\<lparr>text = str ''Hello'', sender = ''user'', timestamp = ''12:00'', isError = None\<rparr>]
     (messages (run [Change (str ''Hello''), Submit ''12:00'', Settle 0 (Inl FetchFailed) ''12:01'']
        initial_chat))
   \<and> messages (run [Change (str ''Hello''), Submit ''12:00'', Settle 0 (Inl FetchFailed) ''12:01'']
        initial_chat)
     = [\<lparr>text = str ''Hello'', sender = ''user'', timestamp = ''12:00'', isError = None\<rparr>,
        \<lparr>text = str ''Sorry, I encountered an error. Please try again.'', sender = ''bot'',
           timestamp = ''12:01'', isError = Some True\<rparr>]"
  using transcript_append_only [where es = "[Change (str ''Hello'')]" and now = "''12:00''"
      and es' = "[Settle 0 (Inl FetchFailed) ''12:01'']"]
  by (simp add: initial_chat_def setInput_def emit_def trim_def is_ws_def str_def handleSubmit_accepted
      setInput_fields handleSendMessage_fields resume_messages chatAPI_sendMessage_def)

section \<open>Properties of the API client\<close>

text \<open>
  \<open>getStatus\<close> and \<open>reinitialize\<close> can raise on a response whose status is not 2xx: they
  parse the body whatever the status, and \<open>response.json()\<close> rejects when the body is not
  JSON (a plain \<open>404 Not Found\<close> page, say).
\<close>

theorem rag_non_2xx_counterexample:
  "\<not> ok (Response 404 (None :: rag_status option))
   \<and> ragAPI_getStatus (Inr (Response 404 None)) = Inl JsonSyntaxError
   \<and> \<not> ok (Response 404 (None :: ack option))
   \<and> ragAPI_reinitialize (Inr (Response 404 None)) = Inl JsonSyntaxError"
  by (simp add: ragAPI_getStatus_def ragAPI_reinitialize_def response_json_def ok_def)

text \<open>
  C6, as the client has it. A response whose status is not 2xx makes \<open>sendMessage\<close>,
  \<open>uploadFile\<close>, \<open>deleteFile\<close> and \<open>listFiles\<close> raise the client's HTTP error to their
  caller, whatever the body. \<open>getStatus\<close> and \<open>reinitialize\<close> never raise that error and
  do not look at the status: on a non-2xx response they return the parsed body when the
  body is JSON and raise the parse error when it is not, exactly as on a 200 response.
\<close>

theorem non_2xx_status:
  assumes "\<not> (200 \<le> code \<and> code \<le> 299)"
  shows "fst (chatAPI_sendMessage (Inr (Response code chat_body))) = Inl (HttpError code)
       \<and> fileAPI_uploadFile (Inr (Response code upload_body)) = Inl (HttpError code)
       \<and> fileAPI_deleteFile (Inr (Response code delete_body)) = Inl (HttpError code)
       \<and> fileAPI_listFiles (Inr (Response code list_body)) = Inl (HttpError code)
       \<and> ragAPI_getStatus (Inr (Response code status_body))
           = (case status_body of Some v \<Rightarrow> Inr v | None \<Rightarrow> Inl JsonSyntaxError)
       \<and> ragAPI_getStatus (Inr (Response code status_body))
           = ragAPI_getStatus (Inr (Response 200 status_body))
       \<and> ragAPI_reinitialize (Inr (Response code reinit_body))
           = (case reinit_body of Some v \<Rightarrow> Inr v | None \<Rightarrow> Inl JsonSyntaxError)
       \<and> ragAPI_reinitialize (Inr (Response code reinit_body))
           = ragAPI_reinitialize (Inr (Response 200 reinit_body))"
  using assms
  by (simp add: chatAPI_sendMessage_def fileAPI_uploadFile_def fileAPI_deleteFile_def
      fileAPI_listFiles_def ragAPI_getStatus_def ragAPI_reinitialize_def ok_def response_json_def
      split: option.splits)

theorem non_2xx_status_witness:
  "fst (chatAPI_sendMessage (Inr (Response 500 (Some \<lparr>reply = str ''x''\<rparr>)))) = Inl (HttpError 500)
   \<and> fileAPI_uploadFile (Inr (Response 500 (Some \<lparr>result_status = ''ok''\<rparr>))) = Inl (HttpError 500)
   \<and> fileAPI_deleteFile (Inr (Response 500 (Some Ack))) = Inl (HttpError 500)
   \<and> fileAPI_listFiles (Inr (Response 500 (Some \<lparr>response_files = []\<rparr>))) = Inl (HttpError 500)
   \<and> ragAPI_getStatus (Inr (Response 500 (Some \<lparr>rag_initialized = Some True, file_count = Some 2\<rparr>)))
       = Inr \<lparr>rag_initialized = Some True, file_count = Some 2\<rparr>
   \<and> ragAPI_reinitialize (Inr (Response 500 (Some Ack))) = Inr Ack
   \<and> fileAPI_listFiles (Inr (Response 404 None)) = Inl (HttpError 404)
   \<and> ragAPI_getStatus (Inr (Response 404 None)) = Inl JsonSyntaxError
   \<and> ragAPI_getStatus (Inr (Response 404 None)) = ragAPI_getStatus (Inr (Response 200 None))
   \<and> ragAPI_reinitialize (Inr (Response 404 None)) = Inl JsonSyntaxError"
  using non_2xx_status [where code = 500 and chat_body = "Some \<lparr>reply = str ''x''\<rparr>"
      and upload_body = "Some \<lparr>result_status = ''ok''\<rparr>" and delete_body = "Some Ack"
      and list_body = "Some \<lparr>response_files = []\<rparr>"
      and status_body = "Some \<lparr>rag_initialized = Some True, file_count = Some 2\<rparr>"
      and reinit_body = "Some Ack"]
    non_2xx_status [where code = 404 and chat_body = None and upload_body = None
      and delete_body = None and list_body = None and status_body = None and reinit_body = None]
  by (simp add: ragAPI_getStatus_def response_json_def)

section \<open>Properties of the file repository view\<close>

lemma timers_append: "timers (xs @ ys) = timers xs @ timers ys"
  by (induction xs rule: timers.induct) simp_all

lemma fetches_simps:
  "fetches r [] = 0"
  "fetches r (e # tr) = (if e = Fetch r then 1 else 0) + fetches r tr"
  "fetches r (xs @ ys) = fetches r xs + fetches r ys"
  by (induction xs) (simp_all add: fetches_def)

lemma request_distinct:
  "fileAPI_listFiles_request \<noteq> ragAPI_getStatus_request"
  "fileAPI_uploadFile_request fd \<noteq> fileAPI_listFiles_request"
  "fileAPI_uploadFile_request fd \<noteq> ragAPI_getStatus_request"
  "fileAPI_deleteFile_request fname \<noteq> fileAPI_listFiles_request"
  "fileAPI_deleteFile_request fname \<noteq> ragAPI_getStatus_request"
  "ragAPI_reinitialize_request \<noteq> ragAPI_getStatus_request"
  by (simp_all add: fileAPI_listFiles_request_def ragAPI_getStatus_request_def
      fileAPI_uploadFile_request_def fileAPI_deleteFile_request_def ragAPI_reinitialize_request_def)

lemmas request_neq = request_distinct request_distinct [symmetric]

lemma loadFiles_eq:
  "loadFiles listed s =
     (case fileAPI_listFiles listed of
        Inr response \<Rightarrow> s\<lparr>trace := trace s @ [Fetch fileAPI_listFiles_request, SetFiles (response_files response)],
                          files := response_files response\<rparr>
      | Inl error \<Rightarrow> s\<lparr>trace := trace s @ [Fetch fileAPI_listFiles_request, ConsoleError ''Error loading files:'' error]\<rparr>)"
  by (simp add: loadFiles_def loadFiles_settle_def loadFiles_call_def setFiles_def emit_def
      console_error_def split: sum.splits)

lemma loadRAGStatus_eq:
  "loadRAGStatus stat s =
     (case ragAPI_getStatus stat of
        Inr v \<Rightarrow> s\<lparr>trace := trace s @ [Fetch ragAPI_getStatus_request, SetRagStatus v], ragStatus := v\<rparr>
      | Inl error \<Rightarrow> s\<lparr>trace := trace s @ [Fetch ragAPI_getStatus_request, ConsoleError ''Error loading RAG status:'' error]\<rparr>)"
  by (simp add: loadRAGStatus_def loadRAGStatus_settle_def loadRAGStatus_call_def setRagStatus_def
      emit_def console_error_def split: sum.splits)

text \<open>The refresh after a mutation: \<open>await loadFiles(); await loadRAGStatus()\<close>.\<close>

lemma refresh_trace:
  "\<exists>e1 e2. trace (loadRAGStatus stat (loadFiles listed s)) =
      trace s @ [Fetch fileAPI_listFiles_request, e1, Fetch ragAPI_getStatus_request, e2]
    \<and> (\<forall>r. e1 \<noteq> Fetch r) \<and> (\<forall>r. e2 \<noteq> Fetch r)
    \<and> (\<forall>cb ms. e1 \<noteq> SetTimeout cb ms) \<and> (\<forall>cb ms. e2 \<noteq> SetTimeout cb ms)"
  by (cases "fileAPI_listFiles listed"; cases "ragAPI_getStatus stat")
    (simp_all add: loadFiles_eq loadRAGStatus_eq)

lemma refresh_fetches:
  "fetches r (trace (loadRAGStatus stat (loadFiles listed s))) =
     fetches r (trace s) + (if r = fileAPI_listFiles_request then 1 else 0)
       + (if r = ragAPI_getStatus_request then 1 else 0)"
proof -
  from refresh_trace [of stat listed s] obtain e1 e2 where
    "trace (loadRAGStatus stat (loadFiles listed s)) =
      trace s @ [Fetch fileAPI_listFiles_request, e1, Fetch ragAPI_getStatus_request, e2]"
    "e1 \<noteq> Fetch r" "e2 \<noteq> Fetch r"
    by blast
  then show ?thesis by (auto simp: fetches_simps)
qed

lemma refresh_fields:
  "uploading (loadRAGStatus stat (loadFiles listed s)) = uploading s"
  "target_files (loadRAGStatus stat (loadFiles listed s)) = target_files s"
  by (cases "fileAPI_listFiles listed"; cases "ragAPI_getStatus stat";
      simp add: loadFiles_eq loadRAGStatus_eq)+

text \<open>
  C7. On mount both requests are handed to \<open>fetch\<close> before either response is looked at,
  and nothing else has happened yet. The two continuations may then run in either order
  (\<open>sA\<close>: listing first, \<open>sB\<close>: status first) with the same resulting \<open>files\<close> and
  \<open>ragStatus\<close>. A failed listing is logged and leaves \<open>files\<close> empty; a failed status
  call is logged and leaves \<open>ragStatus\<close> at \<open>{}\<close>, rendered as inactive with 0 files.
  Whatever happens to one call, the other one that succeeds still stores its result.
\<close>

theorem mount_fetches:
  assumes "s0 = mount initial_fm"
    and "sA = loadRAGStatus_settle stat (loadFiles_settle listed s0)"
    and "sB = loadFiles_settle listed (loadRAGStatus_settle stat s0)"
  shows "trace s0 = [Fetch fileAPI_listFiles_request, Fetch ragAPI_getStatus_request]
       \<and> files s0 = [] \<and> ragStatus s0 = \<lparr>rag_initialized = None, file_count = None\<rparr>
       \<and> files sA = files sB \<and> ragStatus sA = ragStatus sB
       \<and> files (loadFiles_settle listed s0) = files sA
       \<and> ragStatus (loadRAGStatus_settle stat s0) = ragStatus sA
       \<and> (\<forall>error. fileAPI_listFiles listed = Inl error \<longrightarrow>
             files sA = [] \<and> ConsoleError ''Error loading files:'' error \<in> set (trace sA)
           \<and> ConsoleError ''Error loading files:'' error \<in> set (trace sB))
       \<and> (\<forall>response. fileAPI_listFiles listed = Inr response \<longrightarrow> files sA = response_files response)
       \<and> (\<forall>error. ragAPI_getStatus stat = Inl error \<longrightarrow>
             ragStatus sA = \<lparr>rag_initialized = None, file_count = None\<rparr>
           \<and> \<not> rag_active (ragStatus sA) \<and> shown_file_count (ragStatus sA) = 0
           \<and> ConsoleError ''Error loading RAG status:'' error \<in> set (trace sA)
           \<and> ConsoleError ''Error loading RAG status:'' error \<in> set (trace sB))
       \<and> (\<forall>v. ragAPI_getStatus stat = Inr v \<longrightarrow> ragStatus sA = v)"
  unfolding assms
  by (cases "fileAPI_listFiles listed"; cases "ragAPI_getStatus stat")
    (simp_all add: mount_def initial_fm_def loadFiles_call_def loadRAGStatus_call_def
      loadFiles_settle_def loadRAGStatus_settle_def setFiles_def setRagStatus_def emit_def
      console_error_def rag_active_def shown_file_count_def)

theorem mount_fetches_witness:
  "files (loadRAGStatus_settle (Inr (Response 200 (Some \<lparr>rag_initialized = Some True, file_count = Some 1\<rparr>)))
      (loadFiles_settle (Inl FetchFailed) (mount initial_fm))) = []
   \<and> ragStatus (loadRAGStatus_settle (Inr (Response 200 (Some \<lparr>rag_initialized = Some True, file_count = Some 1\<rparr>)))
      (loadFiles_settle (Inl FetchFailed) (mount initial_fm)))
       = \<lparr>rag_initialized = Some True, file_count = Some 1\<rparr>
   \<and> files (loadRAGStatus_settle (Inl FetchFailed)
      (loadFiles_settle (Inr (Response 200 (Some \<lparr>response_files = [\<lparr>filename = ''report.pdf'', metadata = None\<rparr>]\<rparr>)))
         (mount initial_fm))) = [\<lparr>filename = ''report.pdf'', metadata = None\<rparr>]
   \<and> ragStatus (loadRAGStatus_settle (Inl FetchFailed)
      (loadFiles_settle (Inr (Response 200 (Some \<lparr>response_files = [\<lparr>filename = ''report.pdf'', metadata = None\<rparr>]\<rparr>)))
         (mount initial_fm))) = \<lparr>rag_initialized = None, file_count = None\<rparr>"
  using
    mount_fetches [where listed = "Inl FetchFailed"
      and stat = "Inr (Response 200 (Some \<lparr>rag_initialized = Some True, file_count = Some 1\<rparr>))",
      OF refl refl refl]
    mount_fetches [where stat = "Inl FetchFailed"
      and listed = "Inr (Response 200 (Some \<lparr>response_files = [\<lparr>filename = ''report.pdf'', metadata = None\<rparr>]\<rparr>))",
      OF refl refl refl]
  by (simp add: fileAPI_listFiles_def ragAPI_getStatus_def ok_def response_json_def
      mount_def initial_fm_def loadFiles_call_def loadRAGStatus_call_def loadFiles_settle_def
      loadRAGStatus_settle_def setFiles_def setRagStatus_def emit_def console_error_def)

text \<open>
  C4. An upload with a file selected. When the server's result has status \<open>ok\<close>, the listing
  and the RAG status are each fetched exactly once more. When the result has status
  \<open>duplicate\<close>, or the upload call fails, neither is fetched and \<open>files\<close> and \<open>ragStatus\<close>
  are as before. In every case \<open>uploading\<close> is false afterwards and the selection of the
  file input is empty.
\<close>

theorem upload_attempt:
  assumes "target_files s = f # rest"
    and "s' = handleFileUpload uploaded listed stat s"
  shows "(\<forall>result. fileAPI_uploadFile uploaded = Inr result \<and> result_status result = ''ok'' \<longrightarrow>
            fetches fileAPI_listFiles_request (trace s') = fetches fileAPI_listFiles_request (trace s) + 1
          \<and> fetches ragAPI_getStatus_request (trace s') = fetches ragAPI_getStatus_request (trace s) + 1)
       \<and> ((\<exists>result. fileAPI_uploadFile uploaded = Inr result \<and> result_status result = ''duplicate'')
            \<or> (\<exists>error. fileAPI_uploadFile uploaded = Inl error) \<longrightarrow>
            fetches fileAPI_listFiles_request (trace s') = fetches fileAPI_listFiles_request (trace s)
          \<and> fetches ragAPI_getStatus_request (trace s') = fetches ragAPI_getStatus_request (trace s)
          \<and> files s' = files s \<and> ragStatus s' = ragStatus s)
       \<and> \<not> uploading s' \<and> target_files s' = []"
proof (cases "fileAPI_uploadFile uploaded")
  case (Inl error)
  then show ?thesis using assms
    by (simp add: handleFileUpload_def Let_def alert_def console_error_def emit_def
        setUploading_def clear_target_value_def fetches_simps request_neq)
next
  case (Inr result)
  show ?thesis
  proof (cases "result_status result = ''duplicate''")
    case True
    then show ?thesis using assms Inr
      by (simp add: handleFileUpload_def Let_def alert_def emit_def
          setUploading_def clear_target_value_def fetches_simps request_neq)
  next
    case False
    then show ?thesis using assms Inr
      by (simp add: handleFileUpload_def Let_def alert_def emit_def setUploading_def
          clear_target_value_def fetches_simps refresh_fetches refresh_fields request_neq)
  qed
qed

theorem upload_attempt_witness:
  "fetches fileAPI_listFiles_request (trace (handleFileUpload
       (Inr (Response 200 (Some \<lparr>result_status = ''ok''\<rparr>)))
       (Inr (Response 200 (Some \<lparr>response_files = [\<lparr>filename = ''report.pdf'', metadata = None\<rparr>]\<rparr>)))
       (Inr (Response 200 (Some \<lparr>rag_initialized = Some True, file_count = Some 1\<rparr>)))
       (initial_fm\<lparr>target_files := [File ''report.pdf'']\<rparr>))) = 1
   \<and> fetches ragAPI_getStatus_request (trace (handleFileUpload
       (Inr (Response 200 (Some \<lparr>result_status = ''ok''\<rparr>)))
       (Inr (Response 200 (Some \<lparr>response_files = [\<lparr>filename = ''report.pdf'', metadata = None\<rparr>]\<rparr>)))
       (Inr (Response 200 (Some \<lparr>rag_initialized = Some True, file_count = Some 1\<rparr>)))
       (initial_fm\<lparr>target_files := [File ''report.pdf'']\<rparr>))) = 1
   \<and> files (handleFileUpload
       (Inr (Response 200 (Some \<lparr>result_status = ''duplicate''\<rparr>)))
       (Inr (Response 200 (Some \<lparr>response_files = [\<lparr>filename = ''report.pdf'', metadata = None\<rparr>]\<rparr>)))
       (Inr (Response 200 (Some \<lparr>rag_initialized = Some True, file_count = Some 1\<rparr>)))
       (initial_fm\<lparr>target_files := [File ''report.pdf'']\<rparr>)) = []
   \<and> \<not> uploading (handleFileUpload
       (Inr (Response 200 (Some \<lparr>result_status = ''duplicate''\<rparr>)))
       (Inr (Response 200 (Some \<lparr>response_files = [\<lparr>filename = ''report.pdf'', metadata = None\<rparr>]\<rparr>)))
       (Inr (Response 200 (Some \<lparr>rag_initialized = Some True, file_count = Some 1\<rparr>)))
       (initial_fm\<lparr>target_files := [File ''report.pdf'']\<rparr>))"
  using
    upload_attempt [where s = "initial_fm\<lparr>target_files := [File ''report.pdf'']\<rparr>"
      and f = "File ''report.pdf''" and rest = "[]"
      and uploaded = "Inr (Response 200 (Some \<lparr>result_status = ''ok''\<rparr>))"
      and listed = "Inr (Response 200 (Some \<lparr>response_files = [\<lparr>filename = ''report.pdf'', metadata = None\<rparr>]\<rparr>))"
      and stat = "Inr (Response 200 (Some \<lparr>rag_initialized = Some True, file_count = Some 1\<rparr>))",
      OF _ refl]
    upload_attempt [where s = "initial_fm\<lparr>target_files := [File ''report.pdf'']\<rparr>"
      and f = "File ''report.pdf''" and rest = "[]"
      and uploaded = "Inr (Response 200 (Some \<lparr>result_status = ''duplicate''\<rparr>))"
      and listed = "Inr (Response 200 (Some \<lparr>response_files = [\<lparr>filename = ''report.pdf'', metadata = None\<rparr>]\<rparr>))"
      and stat = "Inr (Response 200 (Some \<lparr>rag_initialized = Some True, file_count = Some 1\<rparr>))",
      OF _ refl]
  by (simp add: initial_fm_def fileAPI_uploadFile_def ok_def response_json_def fetches_def)

text \<open>
  C10. With no file selected the upload handler returns at once: the state is the one it
  started from, so no request was issued, \<open>setUploading\<close> was never called, \<open>files\<close> and
  \<open>ragStatus\<close> are unchanged and the file input was not reset.
\<close>

theorem upload_without_file:
  "target_files s = [] \<Longrightarrow> handleFileUpload uploaded listed stat s = s"
  by (simp add: handleFileUpload_def)

theorem upload_without_file_witness:
  "handleFileUpload (Inr (Response 200 (Some \<lparr>result_status = ''ok''\<rparr>))) (Inl FetchFailed)
     (Inl FetchFailed) initial_fm = initial_fm"
  using upload_without_file [of initial_fm "Inr (Response 200 (Some \<lparr>result_status = ''ok''\<rparr>))"
      "Inl FetchFailed" "Inl FetchFailed"]
  by (simp add: initial_fm_def)

text \<open>
  C5. A delete request. Without the user's confirmation only the dialog has happened: no
  request, no state change. With it, a successful delete call is followed by exactly one
  more fetch of the listing and one of the RAG status; a failed delete call by neither,
  and the component's state is as before.
\<close>

theorem delete_request:
  assumes "s' = handleDeleteFile fname confirmed deleted listed stat s"
  shows "(\<not> confirmed \<longrightarrow>
            s' = s\<lparr>trace := trace s @ [Confirm ([CHR 0xC2, CHR 0xBF] @ ''Eliminar el archivo '' @ fname @ ''?'')]\<rparr>)
       \<and> (\<forall>a. confirmed \<and> fileAPI_deleteFile deleted = Inr a \<longrightarrow>
            fetches (fileAPI_deleteFile_request fname) (trace s') = fetches (fileAPI_deleteFile_request fname) (trace s) + 1
          \<and> fetches fileAPI_listFiles_request (trace s') = fetches fileAPI_listFiles_request (trace s) + 1
          \<and> fetches ragAPI_getStatus_request (trace s') = fetches ragAPI_getStatus_request (trace s) + 1)
       \<and> (\<forall>error. confirmed \<and> fileAPI_deleteFile deleted = Inl error \<longrightarrow>
            fetches fileAPI_listFiles_request (trace s') = fetches fileAPI_listFiles_request (trace s)
          \<and> fetches ragAPI_getStatus_request (trace s') = fetches ragAPI_getStatus_request (trace s)
          \<and> files s' = files s \<and> ragStatus s' = ragStatus s \<and> uploading s' = uploading s
          \<and> target_files s' = target_files s)"
proof (cases confirmed)
  case False
  then show ?thesis using assms by (simp add: handleDeleteFile_def Let_def emit_def)
next
  case True
  show ?thesis
  proof (cases "fileAPI_deleteFile deleted")
    case (Inl error)
    then show ?thesis using assms True
      by (simp add: handleDeleteFile_def Let_def alert_def console_error_def emit_def
          fetches_simps request_neq)
  next
    case (Inr a)
    then show ?thesis using assms True
      by (simp add: handleDeleteFile_def Let_def alert_def emit_def fetches_simps
          refresh_fetches request_neq)
  qed
qed


theorem delete_request_witness:
  "handleDeleteFile ''report.pdf'' False (Inr (Response 200 (Some Ack))) (Inl FetchFailed)
      (Inl FetchFailed) initial_fm
     = initial_fm\<lparr>trace := [Confirm ([CHR 0xC2, CHR 0xBF] @ ''Eliminar el archivo report.pdf?'')]\<rparr>
   \<and> fetches fileAPI_listFiles_request (trace (handleDeleteFile ''report.pdf'' True
        (Inr (Response 200 (Some Ack))) (Inl FetchFailed) (Inl FetchFailed) initial_fm)) = 1
   \<and> fetches ragAPI_getStatus_request (trace (handleDeleteFile ''report.pdf'' True
        (Inr (Response 200 (Some Ack))) (Inl FetchFailed) (Inl FetchFailed) initial_fm)) = 1
   \<and> fetches fileAPI_listFiles_request (trace (handleDeleteFile ''report.pdf'' True
        (Inr (Response 404 None)) (Inl FetchFailed) (Inl FetchFailed) initial_fm)) = 0
   \<and> fetches ragAPI_getStatus_request (trace (handleDeleteFile ''report.pdf'' True
        (Inr (Response 404 None)) (Inl FetchFailed) (Inl FetchFailed) initial_fm)) = 0"
  using
    delete_request [where s = initial_fm and fname = "''report.pdf''" and confirmed = False
      and deleted = "Inr (Response 200 (Some Ack))" and listed = "Inl FetchFailed"
      and stat = "Inl FetchFailed", OF refl]
    delete_request [where s = initial_fm and fname = "''report.pdf''" and confirmed = True
      and deleted = "Inr (Response 200 (Some Ack))" and listed = "Inl FetchFailed"
      and stat = "Inl FetchFailed", OF refl]
    delete_request [where s = initial_fm and fname = "''report.pdf''" and confirmed = True
      and deleted = "Inr (Response 404 None)" and listed = "Inl FetchFailed"
      and stat = "Inl FetchFailed", OF refl]
  by (simp add: initial_fm_def fileAPI_deleteFile_def ok_def response_json_def fetches_def)

text \<open>
  The reinitialize call may settle by being rejected. Then the handler logs the error
  and arms no timer: no follow-up refresh is scheduled.
\<close>

theorem reinitialize_rejected_counterexample:
  "timers (trace (handleReinitializeRAG (Inl FetchFailed) initial_fm)) = []
   \<and> trace (handleReinitializeRAG (Inl FetchFailed) initial_fm)
       = [Fetch ragAPI_reinitialize_request, ConsoleError ''Error reinitializing RAG:'' FetchFailed]"
  by (simp add: handleReinitializeRAG_def ragAPI_reinitialize_def initial_fm_def emit_def
      console_error_def)

text \<open>
  C9, as the handler has it. When the reinitialize call is fulfilled (a response arrived and its body
  parsed, whatever the status), the handler arms exactly one timer, for \<open>loadRAGStatus\<close>
  after 3000 ms. When the call is rejected, it logs the error and arms none. When the
  timer fires, \<open>loadRAGStatus\<close> fetches the status once and arms no further timer.
\<close>

theorem reinitialize_follow_up:
  assumes "s' = handleReinitializeRAG reinitialized s"
  shows "(\<forall>a. ragAPI_reinitialize reinitialized = Inr a \<longrightarrow>
            trace s' = trace s @ [Fetch ragAPI_reinitialize_request,
                                  Alert (''Sistema RAG se est'' @ [CHR 0xC3, CHR 0xA1] @ '' reinicializando...''),
                                  SetTimeout LoadRAGStatus 3000]
          \<and> timers (trace s') = timers (trace s) @ [(LoadRAGStatus, 3000)])
       \<and> (\<forall>error. ragAPI_reinitialize reinitialized = Inl error \<longrightarrow>
            trace s' = trace s @ [Fetch ragAPI_reinitialize_request,
                                  ConsoleError ''Error reinitializing RAG:'' error]
          \<and> timers (trace s') = timers (trace s))
       \<and> timers (trace (run_callback LoadRAGStatus stat t)) = timers (trace t)
       \<and> fetches ragAPI_getStatus_request (trace (run_callback LoadRAGStatus stat t))
           = fetches ragAPI_getStatus_request (trace t) + 1"
  unfolding assms
  by (cases "ragAPI_reinitialize reinitialized"; cases "ragAPI_getStatus stat")
    (simp_all add: handleReinitializeRAG_def alert_def emit_def console_error_def timers_append
      loadRAGStatus_eq fetches_simps)

theorem reinitialize_follow_up_witness:
  "timers (trace (handleReinitializeRAG (Inr (Response 200 (Some Ack))) initial_fm)) = [(LoadRAGStatus, 3000)]
   \<and> timers (trace (handleReinitializeRAG (Inr (Response 200 None)) initial_fm)) = []"
  using
    reinitialize_follow_up [where s = initial_fm and reinitialized = "Inr (Response 200 (Some Ack))", OF refl]
    reinitialize_follow_up [where s = initial_fm and reinitialized = "Inr (Response 200 None)", OF refl]
  by (simp add: ragAPI_reinitialize_def response_json_def initial_fm_def)

end
